theory Spec2Isabelle
  imports Complex_Main
begin

section \<open>JavaScript values\<close>

text \<open>
  The hook \<^verbatim>\<open>useTasks\<close> handles values whose static types are erased at run time:
  \<^verbatim>\<open>normalizeTasks\<close> takes \<^verbatim>\<open>any[]\<close> and casts its result \<^verbatim>\<open>as Task\<close>. The
  model therefore works on run-time values. A number is a double: not-a-number, an
  infinity, or a finite value (kept as an exact rational; the two zeros are one value).
\<close>

datatype jsnum = NaN | PosInf | NegInf | Fin rat

datatype jsval =
    JUndefined
  | JNull
  | JBool bool
  | JNum jsnum
  | JStr string
  | JArr "jsval list"
  | JObj "(string \<times> jsval) list"

text \<open>The errors the code can throw.\<close>

datatype js_error = TypeError | RangeError

text \<open>\<^verbatim>\<open>!!v\<close>: undefined, null, false, 0, NaN and the empty string are falsy.\<close>

fun truthy :: "jsval \<Rightarrow> bool" where
  "truthy JUndefined = False"
| "truthy JNull = False"
| "truthy (JBool b) = b"
| "truthy (JNum n) = (n \<noteq> NaN \<and> n \<noteq> Fin 0)"
| "truthy (JStr s) = (s \<noteq> [])"
| "truthy (JArr xs) = True"
| "truthy (JObj kvs) = True"

text \<open>\<^verbatim>\<open>a ?? b\<close>: \<^verbatim>\<open>b\<close> only when \<^verbatim>\<open>a\<close> is null or undefined.\<close>

definition nullish :: "jsval \<Rightarrow> jsval \<Rightarrow> jsval" where
  "nullish a b = (if a = JUndefined \<or> a = JNull then b else a)"

section \<open>Tasks and the store\<close>

text \<open>
  \<^verbatim>\<open>Task\<close> of \<^verbatim>\<open>@/types\<close>, with the run-time value of each field. An optional field
  that is absent reads as \<^verbatim>\<open>undefined\<close>. The fields \<^verbatim>\<open>id\<close> and \<^verbatim>\<open>notes\<close> are named
  \<open>id'\<close> and \<open>notes'\<close> here. A well-typed task has strings for \<^verbatim>\<open>id\<close>, \<^verbatim>\<open>title\<close>,
  \<^verbatim>\<open>priority\<close>, \<^verbatim>\<open>status\<close> and \<^verbatim>\<open>createdAt\<close>, numbers for \<^verbatim>\<open>revenue\<close> and
  \<^verbatim>\<open>timeTaken\<close>, and a string or \<^verbatim>\<open>undefined\<close> for \<^verbatim>\<open>notes\<close> and \<^verbatim>\<open>completedAt\<close>.
\<close>

record Task =
  id' :: jsval
  title :: jsval
  revenue :: jsval
  timeTaken :: jsval
  priority :: jsval
  status :: jsval
  notes' :: jsval
  createdAt :: jsval
  completedAt :: jsval

text \<open>
  \<^verbatim>\<open>Partial<Task>\<close>: every key may be missing (\<open>None\<close>); a key that is present carries a
  value, which may itself be \<^verbatim>\<open>undefined\<close>.
\<close>

record Patch =
  p_id :: "jsval option"
  p_title :: "jsval option"
  p_revenue :: "jsval option"
  p_timeTaken :: "jsval option"
  p_priority :: "jsval option"
  p_status :: "jsval option"
  p_notes :: "jsval option"
  p_createdAt :: "jsval option"
  p_completedAt :: "jsval option"

text \<open>The four \<^verbatim>\<open>useState\<close> cells of the hook.\<close>

record Store =
  tasks :: "Task list"
  loading :: bool
  error :: "string option"
  lastDeleted :: "Task option"

section \<open>Run-time builtins\<close>

subsection \<open>Decimal rendering\<close>

text \<open>
  \<^verbatim>\<open>'task-' + Date.now()\<close> and the fields of an ISO timestamp print integers in decimal.
\<close>

definition digit :: "int \<Rightarrow> char" where
  "digit d = ''0123456789'' ! nat (d mod 10)"

function digits :: "int \<Rightarrow> string" where
  "digits n = (if n < 10 then [digit n] else digits (n div 10) @ [digit n])"
  by pat_completeness auto
termination
  by (relation "measure nat") auto

declare digits.simps [simp del]

text \<open>An integer as JavaScript prints it (below 10^21, where no exponent is used).\<close>

definition show_int :: "int \<Rightarrow> string" where
  "show_int i = (if i < 0 then CHR ''-'' # digits (- i) else digits i)"

text \<open>
  \<open>pad w n\<close>: the decimal digits of \<open>n \<ge> 0\<close>, filled with zeros on the left to
  width \<open>w\<close>.
\<close>

definition pad :: "nat \<Rightarrow> int \<Rightarrow> string" where
  "pad w n = replicate (w - length (digits n)) CHR ''0'' @ digits n"

subsection \<open>Dates\<close>

text \<open>
  A \<^verbatim>\<open>Date\<close> object holds a time value, an integer count of milliseconds since the
  epoch of magnitude at most 8.64e15, or is an invalid date (\<open>None\<close>).
  \<open>TimeClip\<close> is what \<^verbatim>\<open>new Date(number)\<close> stores.
\<close>

type_synonym Date = "int option"

definition msPerDay :: int where
  "msPerDay = 24 * 3600 * 1000"

fun TimeClip :: "jsnum \<Rightarrow> Date" where
  "TimeClip (Fin q) =
     (if \<bar>q\<bar> > 8640000000000000 then None
      else Some (if q < 0 then \<lceil>q\<rceil> else \<lfloor>q\<rfloor>))"
| "TimeClip _ = None"

text \<open>\<^verbatim>\<open>d.getTime()\<close>: the time value, NaN for an invalid date.\<close>

definition getTime :: "Date \<Rightarrow> jsnum" where
  "getTime d = (case d of None \<Rightarrow> NaN | Some t \<Rightarrow> Fin (of_int t))"

text \<open>
  The calendar date of a day number (days since 1970-01-01, proleptic Gregorian
  calendar), as year, month and day of month.
\<close>

definition civil :: "int \<Rightarrow> int \<times> int \<times> int" where
  "civil day =
     (let z = day + 719468;
          era = z div 146097;
          doe = z mod 146097;
          yoe = (doe - doe div 1460 + doe div 36524 - doe div 146096) div 365;
          doy = doe - (365 * yoe + yoe div 4 - yoe div 100);
          mp = (5 * doy + 2) div 153;
          d = doy - (153 * mp + 2) div 5 + 1;
          m = (if mp < 10 then mp + 3 else mp - 9);
          y = yoe + era * 400 + (if m \<le> 2 then 1 else 0)
      in (y, m, d))"

text \<open>
  The text \<^verbatim>\<open>toISOString\<close> prints for a time value:
  \<^verbatim>\<open>YYYY-MM-DDTHH:mm:ss.sssZ\<close>, the year with a sign and six digits outside 0..9999.
\<close>

definition isoYear :: "int \<Rightarrow> string" where
  "isoYear y =
     (if 0 \<le> y \<and> y \<le> 9999 then pad 4 y
      else if y < 0 then CHR ''-'' # pad 6 (- y)
      else CHR ''+'' # pad 6 y)"

definition iso :: "int \<Rightarrow> string" where
  "iso t =
     (let (y, m, d) = civil (t div msPerDay);
          ms = t mod msPerDay
      in isoYear y @ ''-'' @ pad 2 m @ ''-'' @ pad 2 d @ ''T''
         @ pad 2 (ms div 3600000) @ '':'' @ pad 2 (ms div 60000 mod 60) @ '':''
         @ pad 2 (ms div 1000 mod 60) @ ''.'' @ pad 3 (ms mod 1000) @ ''Z'')"

text \<open>\<^verbatim>\<open>d.toISOString()\<close> throws a RangeError on an invalid date.\<close>

definition toISOString :: "Date \<Rightarrow> js_error + string" where
  "toISOString d = (case d of None \<Rightarrow> Inl RangeError | Some t \<Rightarrow> Inr (iso t))"

subsection \<open>Conversions\<close>

text \<open>A throwing computation: \<open>Inl\<close> is the error thrown, \<open>Inr\<close> the value.\<close>

definition andThen :: "js_error + 'a \<Rightarrow> ('a \<Rightarrow> js_error + 'b) \<Rightarrow> js_error + 'b" where
  "andThen m f = (case m of Inl e \<Rightarrow> Inl e | Inr x \<Rightarrow> f x)"

text \<open>
  Three conversions of the run time are parameters of the model: the number a string
  denotes, the time value \<^verbatim>\<open>Date.parse\<close> reads from a string (NaN when it reads
  none), and the primitive an array or object converts to (which may throw). Every
  theorem below that mentions them holds for all settings.
\<close>

record Builtins =
  StringToNumber :: "string \<Rightarrow> jsnum"
  Date_parse :: "string \<Rightarrow> jsnum"
  ToPrimitive :: "jsval \<Rightarrow> js_error + jsval"

definition toPrimitive :: "Builtins \<Rightarrow> jsval \<Rightarrow> js_error + jsval" where
  "toPrimitive rt v =
     (case v of JArr xs \<Rightarrow> ToPrimitive rt v | JObj kvs \<Rightarrow> ToPrimitive rt v | _ \<Rightarrow> Inr v)"

fun primToNumber :: "Builtins \<Rightarrow> jsval \<Rightarrow> js_error + jsnum" where
  "primToNumber rt JUndefined = Inr NaN"
| "primToNumber rt JNull = Inr (Fin 0)"
| "primToNumber rt (JBool b) = Inr (Fin (if b then 1 else 0))"
| "primToNumber rt (JNum n) = Inr n"
| "primToNumber rt (JStr s) = Inr (StringToNumber rt s)"
| "primToNumber rt (JArr xs) = Inl TypeError"
| "primToNumber rt (JObj kvs) = Inl TypeError"

text \<open>\<^verbatim>\<open>Number(v)\<close>.\<close>

definition Number :: "Builtins \<Rightarrow> jsval \<Rightarrow> js_error + jsnum" where
  "Number rt v = andThen (toPrimitive rt v) (primToNumber rt)"

text \<open>\<^verbatim>\<open>new Date(v)\<close>: a string is parsed, any other value is converted to a number.\<close>

definition newDate :: "Builtins \<Rightarrow> jsval \<Rightarrow> js_error + Date" where
  "newDate rt v =
     andThen (toPrimitive rt v) (\<lambda>p.
       case p of
         JStr s \<Rightarrow> Inr (TimeClip (Date_parse rt s))
       | _ \<Rightarrow> andThen (primToNumber rt p) (\<lambda>n. Inr (TimeClip n)))"

text \<open>\<^verbatim>\<open>n >= 0\<close> and \<^verbatim>\<open>n + k\<close> on numbers.\<close>

fun ge_zero :: "jsnum \<Rightarrow> bool" where
  "ge_zero (Fin q) = (0 \<le> q)"
| "ge_zero PosInf = True"
| "ge_zero NegInf = False"
| "ge_zero NaN = False"

fun plus_num :: "jsnum \<Rightarrow> rat \<Rightarrow> jsnum" where
  "plus_num (Fin q) k = Fin (q + k)"
| "plus_num n k = n"

text \<open>
  \<^verbatim>\<open>t.key\<close> for a value \<open>t\<close> that is neither null nor undefined, and a key that no
  prototype defines (the nine field names of a task): the own property of an object,
  \<^verbatim>\<open>undefined\<close> otherwise. An object is given by its property list, each key once.
\<close>

definition field :: "jsval \<Rightarrow> string \<Rightarrow> jsval" where
  "field t key =
     (case t of
        JObj kvs \<Rightarrow> (case map_of kvs key of None \<Rightarrow> JUndefined | Some v \<Rightarrow> v)
      | _ \<Rightarrow> JUndefined)"

section \<open>Load-time normalization\<close>

text \<open>
  The callback of \<^verbatim>\<open>normalizeTasks\<close> on the element \<open>t\<close> at index \<open>idx\<close>; \<open>now\<close> is
  the value \<^verbatim>\<open>Date.now()\<close> returned. Reading a property of null or undefined throws
  a TypeError. The steps run in the source's order: \<^verbatim>\<open>created\<close>, \<^verbatim>\<open>completed\<close>, then
  the fields of the object literal. The arithmetic on time values is that of the
  integers: a valid time value has magnitude at most 8.64e15, below 2^53, where
  doubles are exact.
\<close>

definition normalizeTask :: "Builtins \<Rightarrow> int \<Rightarrow> nat \<Rightarrow> jsval \<Rightarrow> js_error + Task" where
  "normalizeTask rt now idx t =
     (if t = JUndefined \<or> t = JNull then Inl TypeError
      else
        andThen (if truthy (field t ''createdAt'') then newDate rt (field t ''createdAt'')
                 else Inr (TimeClip (Fin (of_int (now - (int idx + 1) * 24 * 3600 * 1000)))))
        (\<lambda>created.
        andThen (if truthy (field t ''completedAt'') then Inr (field t ''completedAt'')
                 else if field t ''status'' = JStr ''Done''
                   then andThen
                          (toISOString (TimeClip (plus_num (getTime created) (24 * 3600 * 1000))))
                          (\<lambda>s. Inr (JStr s))
                   else Inr JUndefined)
        (\<lambda>completed.
        andThen (Number rt (field t ''revenue''))
        (\<lambda>rev.
        andThen (andThen (Number rt (field t ''timeTaken''))
                   (\<lambda>c. if ge_zero c then Number rt (field t ''timeTaken'') else Inr (Fin 0)))
        (\<lambda>time.
        andThen (toISOString created)
        (\<lambda>createdIso.
          Inr \<lparr> id' = field t ''id'',
                title = field t ''title'',
                revenue = nullish (JNum rev) (JNum (Fin 0)),
                timeTaken = JNum time,
                priority = field t ''priority'',
                status = field t ''status'',
                notes' = field t ''notes'',
                createdAt = JStr createdIso,
                completedAt = completed \<rparr>))))))"

text \<open>\<^verbatim>\<open>xs.map((t, idx) => ...)\<close> from index \<open>k\<close> on; the first throw ends the loop.\<close>

fun mapIdx :: "(nat \<Rightarrow> 'a \<Rightarrow> js_error + 'b) \<Rightarrow> nat \<Rightarrow> 'a list \<Rightarrow> js_error + 'b list" where
  "mapIdx f k [] = Inr []"
| "mapIdx f k (x # xs) =
     andThen (f k x) (\<lambda>y. andThen (mapIdx f (Suc k) xs) (\<lambda>ys. Inr (y # ys)))"

definition isArray :: "jsval \<Rightarrow> bool" where
  "isArray v = (case v of JArr xs \<Rightarrow> True | _ \<Rightarrow> False)"

definition elements :: "jsval \<Rightarrow> jsval list" where
  "elements v = (case v of JArr xs \<Rightarrow> xs | _ \<Rightarrow> [])"

definition normalizeTasks :: "Builtins \<Rightarrow> int \<Rightarrow> jsval \<Rightarrow> js_error + Task list" where
  "normalizeTasks rt now input =
     mapIdx (normalizeTask rt now) 0 (if isArray input then elements input else [])"

section \<open>Store mutations\<close>

text \<open>
  Each function gives the state after one call of a mutation, from the state before
  it. \<^verbatim>\<open>addTask\<close>, \<^verbatim>\<open>updateTask\<close> and \<^verbatim>\<open>deleteTask\<close> hand React an updater
  (\<^verbatim>\<open>setTasks(prev => ...)\<close>); React applies queued updaters to the latest state in the
  order of the calls, whether or not the hook is rendered between them, so a
  composition of these three is the result of the calls in that order.
  \<^verbatim>\<open>undoDelete\<close> is different: it reads \<^verbatim>\<open>lastDeleted\<close> from its closure, see below.
  \<open>now\<close> is the clock value \<^verbatim>\<open>new Date()\<close> reads, a valid time value. The initial
  fetch and the derived views (sorting and metrics, computed by functions of
  \<^verbatim>\<open>@/utils/logic\<close>) take no part in the mutations and are left out.
\<close>

text \<open>
  \<^verbatim>\<open>generateId\<close>: \<open>t\<close> is the value of \<^verbatim>\<open>Date.now()\<close>, \<open>r\<close> the value of
  \<^verbatim>\<open>Math.floor(Math.random() * 10000)\<close>.
\<close>

definition generateId :: "int \<Rightarrow> int \<Rightarrow> string" where
  "generateId t r = ''task-'' @ show_int t @ ''-'' @ show_int r"

text \<open>The object \<^verbatim>\<open>newTask\<close> that \<^verbatim>\<open>addTask\<close> builds from its payload.\<close>

definition newTask :: "int \<Rightarrow> int \<Rightarrow> int \<Rightarrow> Task \<Rightarrow> Task" where
  "newTask t r now task =
     (let id = nullish (id' task) (JStr (generateId t r));
          timeTaken = timeTaken task;
          createdAt = JStr (iso now);
          status = status task;
          completedAt = (if status = JStr ''Done'' then createdAt else JUndefined)
      in task \<lparr> id' := id, timeTaken := timeTaken, createdAt := createdAt,
                 completedAt := completedAt \<rparr>)"

definition addTask :: "int \<Rightarrow> int \<Rightarrow> int \<Rightarrow> Task \<Rightarrow> Store \<Rightarrow> Store" where
  "addTask t r now task s = s \<lparr> tasks := newTask t r now task # tasks s \<rparr>"

text \<open>\<^verbatim>\<open>{ ...t, ...patch }\<close>: a key of the patch wins.\<close>

definition over :: "jsval \<Rightarrow> jsval option \<Rightarrow> jsval" where
  "over old new = (case new of None \<Rightarrow> old | Some v \<Rightarrow> v)"

definition merge :: "Task \<Rightarrow> Patch \<Rightarrow> Task" where
  "merge t p =
     \<lparr> id' = over (id' t) (p_id p),
       title = over (title t) (p_title p),
       revenue = over (revenue t) (p_revenue p),
       timeTaken = over (timeTaken t) (p_timeTaken p),
       priority = over (priority t) (p_priority p),
       status = over (status t) (p_status p),
       notes' = over (notes' t) (p_notes p),
       createdAt = over (createdAt t) (p_createdAt p),
       completedAt = over (completedAt t) (p_completedAt p) \<rparr>"

text \<open>The callback of the \<^verbatim>\<open>map\<close> in \<^verbatim>\<open>updateTask\<close>.\<close>

definition updateOne :: "int \<Rightarrow> string \<Rightarrow> Patch \<Rightarrow> Task \<Rightarrow> Task" where
  "updateOne now i patch t =
     (if id' t \<noteq> JStr i then t
      else
        let merged = merge t patch in
        if status t \<noteq> JStr ''Done'' \<and> status merged = JStr ''Done''
           \<and> \<not> truthy (completedAt merged)
        then merged \<lparr> completedAt := JStr (iso now) \<rparr>
        else merged)"

definition updateTask :: "int \<Rightarrow> string \<Rightarrow> Patch \<Rightarrow> Store \<Rightarrow> Store" where
  "updateTask now i patch s = s \<lparr> tasks := map (updateOne now i patch) (tasks s) \<rparr>"

text \<open>
  \<^verbatim>\<open>deleteTask\<close>: \<^verbatim>\<open>prev.find(...) || null\<close> is the first task with the id, or null; it
  is stored in \<^verbatim>\<open>lastDeleted\<close> whether or not a task was found.
\<close>

definition deleteTask :: "string \<Rightarrow> Store \<Rightarrow> Store" where
  "deleteTask i s =
     (let prev = tasks s;
          target = find (\<lambda>t. id' t = JStr i) prev
      in s \<lparr> lastDeleted := target, tasks := filter (\<lambda>t. id' t \<noteq> JStr i) prev \<rparr>)"

text \<open>
  \<^verbatim>\<open>undoDelete\<close> is \<^verbatim>\<open>useCallback(..., [lastDeleted])\<close>: every render makes a new
  callback, which tests and reinserts the \<^verbatim>\<open>lastDeleted\<close> of that render, not the one
  of the state it is called on. \<open>captured\<close> is that value. A callback obtained from a
  render that followed the latest mutation has \<open>captured = lastDeleted s\<close>; a callback
  called in the event that also made the deletion, or kept from an earlier render, has
  the older value. With \<open>captured = None\<close> the callback returns at once and writes
  nothing, at whatever moment it is called; with a captured task, \<open>s\<close> is the state
  a render has shown.
\<close>

definition undoDelete :: "Task option \<Rightarrow> Store \<Rightarrow> Store" where
  "undoDelete captured s =
     (case captured of
        None \<Rightarrow> s
      | Some t \<Rightarrow> s \<lparr> tasks := t # tasks s, lastDeleted := None \<rparr>)"

definition clearHistory :: "Store \<Rightarrow> Store" where
  "clearHistory s = s \<lparr> lastDeleted := None \<rparr>"

subsection \<open>Mutations as data\<close>

text \<open>
  The five mutation entry points with their arguments (for \<^verbatim>\<open>undoDelete\<close>, the value
  its callback captured), and the step each makes.
\<close>

datatype Mutation =
    AddTask int int int Task
  | UpdateTask int string Patch
  | DeleteTask string
  | UndoDelete "Task option"
  | ClearHistory

fun mutate :: "Mutation \<Rightarrow> Store \<Rightarrow> Store" where
  "mutate (AddTask t r now task) s = addTask t r now task s"
| "mutate (UpdateTask now i patch) s = updateTask now i patch s"
| "mutate (DeleteTask i) s = deleteTask i s"
| "mutate (UndoDelete captured) s = undoDelete captured s"
| "mutate ClearHistory s = clearHistory s"

text \<open>The tasks a store holds: the collection, then the task in the undo slot.\<close>

definition held :: "Store \<Rightarrow> Task list" where
  "held s = tasks s @ (case lastDeleted s of None \<Rightarrow> [] | Some t \<Rightarrow> [t])"

text \<open>
  What a mutation makes of a task it finds in the collection: an update maps its
  callback over the collection, no other mutation rewrites a task.
\<close>

fun carried :: "Mutation \<Rightarrow> Task \<Rightarrow> Task" where
  "carried (UpdateTask now i patch) t = updateOne now i patch t"
| "carried _ t = t"

fun isUpdate :: "Mutation \<Rightarrow> bool" where
  "isUpdate (UpdateTask now i patch) = True"
| "isUpdate _ = False"

text \<open>
  Whether a mutation is an update that matches the task's id with a patch that has
  the key \<^verbatim>\<open>completedAt\<close>.
\<close>

fun replaces :: "Mutation \<Rightarrow> Task \<Rightarrow> bool" where
  "replaces (UpdateTask now i patch) t = (id' t = JStr i \<and> p_completedAt patch \<noteq> None)"
| "replaces _ t = False"

text \<open>
  The task a mutation brings into the store from outside: the new task of
  \<^verbatim>\<open>addTask\<close>, the task that the callback of \<^verbatim>\<open>undoDelete\<close> captured.
\<close>

fun brought :: "Mutation \<Rightarrow> Task list" where
  "brought (AddTask t r now task) = [newTask t r now task]"
| "brought (UndoDelete captured) = (case captured of None \<Rightarrow> [] | Some x \<Rightarrow> [x])"
| "brought _ = []"

section \<open>Sample data\<close>

text \<open>
  A setting of the three conversion parameters for evaluating inputs in which no
  string is read as a number or a date and no array or object is converted.
\<close>

definition no_conversions :: Builtins where
  "no_conversions =
     \<lparr> StringToNumber = (\<lambda>s. NaN), Date_parse = (\<lambda>s. NaN),
       ToPrimitive = (\<lambda>v. Inl TypeError) \<rparr>"

text \<open>A well-typed task with the given id, status and completion stamp.\<close>

definition sampleTask :: "string \<Rightarrow> string \<Rightarrow> jsval \<Rightarrow> Task" where
  "sampleTask i st done =
     \<lparr> id' = JStr i, title = JStr ''Call client'', revenue = JNum (Fin 100),
       timeTaken = JNum (Fin 2), priority = JStr ''High'', status = JStr st,
       notes' = JUndefined, createdAt = JStr ''2023-11-01T09:00:00.000Z'',
       completedAt = done \<rparr>"

text \<open>A payload for \<^verbatim>\<open>addTask\<close>: no id, and stale timestamps that must not survive.\<close>

definition samplePayload :: "string \<Rightarrow> Task" where
  "samplePayload st =
     \<lparr> id' = JUndefined, title = JStr ''Send invoice'', revenue = JNum (Fin 250),
       timeTaken = JNum (Fin 1), priority = JStr ''Medium'', status = JStr st,
       notes' = JUndefined, createdAt = JStr ''1999-01-01T00:00:00.000Z'',
       completedAt = JStr ''1999-01-02T00:00:00.000Z'' \<rparr>"

text \<open>A loaded store with the given collection and undo slot.\<close>

definition store :: "Task list \<Rightarrow> Task option \<Rightarrow> Store" where
  "store ts ld = \<lparr> tasks = ts, loading = False, error = None, lastDeleted = ld \<rparr>"

text \<open>
  Raw records as \<^verbatim>\<open>tasks.json\<close> may hold them: one with a title only, one with a
  numeric \<^verbatim>\<open>createdAt\<close>, one that is done; and what normalization at the clock value
  1700000000000 makes of them.
\<close>

definition sampleRecords :: "jsval list" where
  "sampleRecords =
     [JObj [(''title'', JStr ''X'')],
      JObj [(''title'', JStr ''Y''), (''createdAt'', JNum (Fin 1690000000000))],
      JObj [(''title'', JStr ''Z''), (''status'', JStr ''Done'')]]"

definition sampleNormalized :: "Task list" where
  "sampleNormalized =
     [\<lparr> id' = JUndefined, title = JStr ''X'', revenue = JNum NaN,
        timeTaken = JNum (Fin 0), priority = JUndefined, status = JUndefined,
        notes' = JUndefined, createdAt = JStr ''2023-11-13T22:13:20.000Z'',
        completedAt = JUndefined \<rparr>,
      \<lparr> id' = JUndefined, title = JStr ''Y'', revenue = JNum NaN,
        timeTaken = JNum (Fin 0), priority = JUndefined, status = JUndefined,
        notes' = JUndefined, createdAt = JStr ''2023-07-22T04:26:40.000Z'',
        completedAt = JUndefined \<rparr>,
      \<lparr> id' = JUndefined, title = JStr ''Z'', revenue = JNum NaN,
        timeTaken = JNum (Fin 0), priority = JUndefined, status = JStr ''Done'',
        notes' = JUndefined, createdAt = JStr ''2023-11-11T22:13:20.000Z'',
        completedAt = JStr ''2023-11-12T22:13:20.000Z'' \<rparr>]"

text \<open>The patch \<^verbatim>\<open>{}\<close>.\<close>

definition emptyPatch :: Patch where
  "emptyPatch =
     \<lparr> p_id = None, p_title = None, p_revenue = None, p_timeTaken = None,
       p_priority = None, p_status = None, p_notes = None, p_createdAt = None,
       p_completedAt = None \<rparr>"

section \<open>Properties of the store mutations\<close>

subsection \<open>Auxiliary facts\<close>

text \<open>The timestamps and the generated id that the examples below use.\<close>

lemma iso_examples:
  "iso 1700000000000 = ''2023-11-14T22:13:20.000Z''"
  "iso 1700000000005 = ''2023-11-14T22:13:20.005Z''"
  "iso 1699913600000 = ''2023-11-13T22:13:20.000Z''"
  "iso 1699740800000 = ''2023-11-11T22:13:20.000Z''"
  "iso 1699827200000 = ''2023-11-12T22:13:20.000Z''"
  "iso 1698829200000 = ''2023-11-01T09:00:00.000Z''"
  "iso 1690000000000 = ''2023-07-22T04:26:40.000Z''"
  "iso 32472144000000 = ''2999-01-01T00:00:00.000Z''"
  by code_simp+

lemma generateId_example: "generateId 1700000000000 42 = ''task-1700000000000-42''"
  by code_simp

lemma find_in_set: "find P xs = Some x \<Longrightarrow> x \<in> set xs"
  by (auto simp: find_Some_iff)

lemma updateOne_other: "id' t \<noteq> JStr i \<Longrightarrow> updateOne now i patch t = t"
  by (simp add: updateOne_def)

text \<open>
  What \<^verbatim>\<open>deleteTask\<close> does with an id that no task has: the collection keeps its
  content, and the undo slot is overwritten with null.
\<close>

lemma deleteTask_no_match:
  assumes "\<forall>t \<in> set (tasks s). id' t \<noteq> JStr i"
  shows "deleteTask i s = s \<lparr> lastDeleted := None \<rparr>"
proof -
  have "find (\<lambda>t. id' t = JStr i) (tasks s) = None"
    using assms by (simp add: find_None_iff)
  moreover have "filter (\<lambda>t. id' t \<noteq> JStr i) (tasks s) = tasks s"
    using assms by (simp add: filter_id_conv)
  ultimately show ?thesis by (simp add: deleteTask_def Let_def)
qed

subsection \<open>Deleting an unknown id\<close>

text \<open>
  Claim C1 says that \<^verbatim>\<open>deleteTask\<close> with an id that matches no task leaves the
  collection unchanged and still holds the previously deleted task. The code keeps the
  collection but empties the undo slot. With task \<open>a\<close> in the collection and the deleted
  task \<open>b\<close> waiting for undo, deleting the unknown id \<open>ghost\<close> loses \<open>b\<close>; and deleting
  \<open>a\<close> twice in a row (a double click) loses \<open>a\<close>, which the first deletion had put
  into the slot.
\<close>

theorem deleteTask_unknown_id_clears_undo:
  "tasks (deleteTask ''ghost''
      (store [sampleTask ''a'' ''Todo'' JUndefined] (Some (sampleTask ''b'' ''Todo'' JUndefined))))
     = [sampleTask ''a'' ''Todo'' JUndefined]
   \<and> lastDeleted (deleteTask ''ghost''
      (store [sampleTask ''a'' ''Todo'' JUndefined] (Some (sampleTask ''b'' ''Todo'' JUndefined))))
     = None
   \<and> lastDeleted (deleteTask ''a'' (store [sampleTask ''a'' ''Todo'' JUndefined] None))
     = Some (sampleTask ''a'' ''Todo'' JUndefined)
   \<and> lastDeleted (deleteTask ''a''
      (deleteTask ''a'' (store [sampleTask ''a'' ''Todo'' JUndefined] None)))
     = None"
  by (simp add: deleteTask_def store_def sampleTask_def)

subsection \<open>Updating an unknown id\<close>

text \<open>
  Claim C8: \<^verbatim>\<open>updateTask\<close> with an id that no task of the collection has changes no
  field of any task, whatever the patch. The function is total, so no error is raised;
  the whole state, undo slot included, is the one before. (That the new array is a
  different object from the old one is not visible in this model.)
\<close>

theorem updateTask_unknown_id:
  assumes "\<forall>t \<in> set (tasks s). id' t \<noteq> JStr i"
  shows "updateTask now i patch s = s"
proof -
  have "map (updateOne now i patch) (tasks s) = tasks s"
    using assms by (intro map_idI) (simp add: updateOne_other)
  then show ?thesis by (simp add: updateTask_def)
qed

theorem updateTask_unknown_id_witness:
  "updateTask 1700000000000 ''ghost'' (emptyPatch \<lparr> p_status := Some (JStr ''Done'') \<rparr>)
     (store [sampleTask ''a'' ''Todo'' JUndefined, sampleTask ''b'' ''In Progress'' JUndefined] None)
   = store [sampleTask ''a'' ''Todo'' JUndefined, sampleTask ''b'' ''In Progress'' JUndefined] None"
  by (rule updateTask_unknown_id) (simp add: store_def sampleTask_def)

subsection \<open>Adding a task\<close>

text \<open>
  Claim C10: \<^verbatim>\<open>addTask\<close> puts the new task at the front of the collection; its
  \<^verbatim>\<open>createdAt\<close> is the ISO text of the current time, its \<^verbatim>\<open>completedAt\<close> is that same
  text when the payload's status is \<^verbatim>\<open>'Done'\<close> and undefined otherwise, and whatever
  \<^verbatim>\<open>createdAt\<close> and \<^verbatim>\<open>completedAt\<close> the payload carries makes no difference.
\<close>

theorem addTask_timestamps:
  "tasks (addTask t r now task s) = newTask t r now task # tasks s
   \<and> createdAt (newTask t r now task) = JStr (iso now)
   \<and> completedAt (newTask t r now task)
       = (if status task = JStr ''Done'' then JStr (iso now) else JUndefined)
   \<and> newTask t r now (task \<lparr> createdAt := c, completedAt := d \<rparr>) = newTask t r now task"
  by (simp add: addTask_def newTask_def Let_def)

subsection \<open>Undo\<close>

lemma find_filter:
  "(\<And>x. P x \<Longrightarrow> Q x) \<Longrightarrow> find P (filter Q xs) = find P xs"
  by (induction xs) auto

text \<open>
  Claim C6 says that \<^verbatim>\<open>addTask\<close>, then \<^verbatim>\<open>deleteTask\<close> of the new task's id, then
  \<^verbatim>\<open>undoDelete\<close> leave the added task in the collection and \<^verbatim>\<open>lastDeleted\<close> null.
  That depends on which callback is called. When the three calls are made in one
  event, on a store whose undo slot was empty at the last render, the callback still
  holds that empty slot and returns at once: the added task is not in the collection,
  and it stays in \<^verbatim>\<open>lastDeleted\<close>.
\<close>

theorem add_delete_undo_counterexample:
  "tasks (undoDelete None (deleteTask ''task-1700000000000-42''
      (addTask 1700000000000 42 1700000000005 (samplePayload ''Todo'')
         (store [sampleTask ''a'' ''Todo'' JUndefined] None))))
   = [sampleTask ''a'' ''Todo'' JUndefined]
   \<and> lastDeleted (undoDelete None (deleteTask ''task-1700000000000-42''
      (addTask 1700000000000 42 1700000000005 (samplePayload ''Todo'')
         (store [sampleTask ''a'' ''Todo'' JUndefined] None))))
   = Some ((samplePayload ''Todo'')
         \<lparr> id' := JStr ''task-1700000000000-42'',
           createdAt := JStr ''2023-11-14T22:13:20.005Z'', completedAt := JUndefined \<rparr>)"
  by (simp add: undoDelete_def deleteTask_def addTask_def newTask_def nullish_def
      generateId_example iso_examples store_def sampleTask_def samplePayload_def)

text \<open>
  Claim C6, amended: after \<^verbatim>\<open>addTask\<close> and \<^verbatim>\<open>deleteTask\<close> of the new task's id,
  \<^verbatim>\<open>undoDelete\<close> called through the callback of a render that followed the deletion
  (it captured the \<^verbatim>\<open>lastDeleted\<close> of that state) leaves the collection containing
  the task that was added, equal in every field (it stands at the front, before the
  earlier tasks that have another id), and \<^verbatim>\<open>lastDeleted\<close> is null. The id \<open>i\<close> is the
  new task's id: the payload's, or the generated one.
\<close>

theorem add_delete_undo:
  assumes "id' (newTask t r now task) = JStr i"
      and "captured = lastDeleted (deleteTask i (addTask t r now task s))"
  shows "tasks (undoDelete captured (deleteTask i (addTask t r now task s)))
           = newTask t r now task # filter (\<lambda>x. id' x \<noteq> JStr i) (tasks s)
         \<and> newTask t r now task
             \<in> set (tasks (undoDelete captured (deleteTask i (addTask t r now task s))))
         \<and> lastDeleted (undoDelete captured (deleteTask i (addTask t r now task s))) = None"
  using assms by (simp add: undoDelete_def deleteTask_def addTask_def Let_def)

theorem add_delete_undo_witness:
  "tasks (undoDelete
      (Some ((samplePayload ''Todo'')
         \<lparr> id' := JStr ''task-1700000000000-42'',
           createdAt := JStr ''2023-11-14T22:13:20.005Z'', completedAt := JUndefined \<rparr>))
      (deleteTask ''task-1700000000000-42''
        (addTask 1700000000000 42 1700000000005 (samplePayload ''Todo'')
           (store [sampleTask ''a'' ''Todo'' JUndefined] None))))
   = [(samplePayload ''Todo'')
         \<lparr> id' := JStr ''task-1700000000000-42'',
           createdAt := JStr ''2023-11-14T22:13:20.005Z'', completedAt := JUndefined \<rparr>,
      sampleTask ''a'' ''Todo'' JUndefined]
   \<and> lastDeleted (undoDelete
      (Some ((samplePayload ''Todo'')
         \<lparr> id' := JStr ''task-1700000000000-42'',
           createdAt := JStr ''2023-11-14T22:13:20.005Z'', completedAt := JUndefined \<rparr>))
      (deleteTask ''task-1700000000000-42''
        (addTask 1700000000000 42 1700000000005 (samplePayload ''Todo'')
           (store [sampleTask ''a'' ''Todo'' JUndefined] None)))) = None"
  using add_delete_undo [of 1700000000000 42 1700000000005 "samplePayload ''Todo''"
      "''task-1700000000000-42''"
      "Some ((samplePayload ''Todo'')
         \<lparr> id' := JStr ''task-1700000000000-42'',
           createdAt := JStr ''2023-11-14T22:13:20.005Z'', completedAt := JUndefined \<rparr>)"
      "store [sampleTask ''a'' ''Todo'' JUndefined] None"]
  by (simp add: deleteTask_def addTask_def newTask_def nullish_def generateId_example
      iso_examples store_def sampleTask_def samplePayload_def)

text \<open>
  Claim C7 says that for any two distinct tasks \<open>A\<close> and \<open>B\<close> of the collection,
  deleting \<open>A\<close>, then \<open>B\<close>, then \<^verbatim>\<open>undoDelete\<close> restores \<open>B\<close> alone. Deletion goes by
  id, the undo slot takes the first task with the id, and the undo callback reinserts
  what it captured; the code checks no id for uniqueness. Three stores show what
  that means. Two distinct tasks that share the id \<open>a\<close>: the first deletion removes
  both, the second finds nothing, and the undo restores nothing. Two tasks with the
  ids \<open>a\<close> and \<open>b\<close>, all three calls in one event: the callback holds the empty slot
  of the last render and restores nothing, \<open>B\<close> stays in the slot. A collection in
  which another task with the id \<open>b\<close> stands before \<open>B\<close>: that task is restored,
  not \<open>B\<close>.
\<close>

theorem delete_delete_undo_counterexample:
  "lastDeleted (deleteTask ''a'' (deleteTask ''a''
      (store [sampleTask ''a'' ''Todo'' JUndefined,
              sampleTask ''a'' ''Done'' (JStr ''2023-11-02T10:00:00.000Z'')] None))) = None
   \<and> tasks (undoDelete None (deleteTask ''a'' (deleteTask ''a''
      (store [sampleTask ''a'' ''Todo'' JUndefined,
              sampleTask ''a'' ''Done'' (JStr ''2023-11-02T10:00:00.000Z'')] None)))) = []
   \<and> tasks (undoDelete None (deleteTask ''b'' (deleteTask ''a''
      (store [sampleTask ''a'' ''Todo'' JUndefined, sampleTask ''b'' ''Todo'' JUndefined]
         None)))) = []
   \<and> lastDeleted (undoDelete None (deleteTask ''b'' (deleteTask ''a''
      (store [sampleTask ''a'' ''Todo'' JUndefined, sampleTask ''b'' ''Todo'' JUndefined]
         None)))) = Some (sampleTask ''b'' ''Todo'' JUndefined)
   \<and> lastDeleted (deleteTask ''b'' (deleteTask ''a''
      (store [sampleTask ''b'' ''Todo'' JUndefined, sampleTask ''a'' ''Todo'' JUndefined,
              sampleTask ''b'' ''In Progress'' JUndefined] None)))
     = Some (sampleTask ''b'' ''Todo'' JUndefined)
   \<and> tasks (undoDelete (Some (sampleTask ''b'' ''Todo'' JUndefined))
      (deleteTask ''b'' (deleteTask ''a''
        (store [sampleTask ''b'' ''Todo'' JUndefined, sampleTask ''a'' ''Todo'' JUndefined,
                sampleTask ''b'' ''In Progress'' JUndefined] None))))
     = [sampleTask ''b'' ''Todo'' JUndefined]"
  by (simp add: undoDelete_def deleteTask_def store_def sampleTask_def)

text \<open>
  Claim C7, amended: let \<open>A\<close> and \<open>B\<close> be tasks with the different ids \<open>a\<close> and \<open>b\<close>,
  \<open>B\<close> being the first task of the collection with its id. Deleting \<open>A\<close>, then \<open>B\<close>,
  then calling \<^verbatim>\<open>undoDelete\<close> through the callback of a render that followed the
  second deletion restores \<open>B\<close> alone, at the front of the tasks with neither id. The
  second deletion replaced \<open>A\<close> in the undo slot by \<open>B\<close>; after the undo \<open>A\<close> is
  neither in the collection nor in the slot, which is empty: only one level of undo
  history is kept.
\<close>

theorem delete_delete_undo:
  assumes A: "id' A = JStr a"
      and ab: "a \<noteq> b"
      and B: "find (\<lambda>t. id' t = JStr b) (tasks s) = Some B"
      and c: "captured = lastDeleted (deleteTask b (deleteTask a s))"
  shows "lastDeleted (deleteTask b (deleteTask a s)) = Some B
       \<and> tasks (undoDelete captured (deleteTask b (deleteTask a s)))
           = B # filter (\<lambda>t. id' t \<noteq> JStr a \<and> id' t \<noteq> JStr b) (tasks s)
       \<and> A \<notin> set (tasks (undoDelete captured (deleteTask b (deleteTask a s))))
       \<and> lastDeleted (undoDelete captured (deleteTask b (deleteTask a s))) = None"
proof -
  let ?ts1 = "filter (\<lambda>t. id' t \<noteq> JStr a) (tasks s)"
  have "find (\<lambda>t. id' t = JStr b) ?ts1 = find (\<lambda>t. id' t = JStr b) (tasks s)"
    using ab by (intro find_filter) auto
  with B have f: "find (\<lambda>t. id' t = JStr b) ?ts1 = Some B"
    by simp
  have idB: "id' B = JStr b"
    using B by (auto simp: find_Some_iff)
  with A ab have AB: "A \<noteq> B"
    by auto
  have slot: "lastDeleted (deleteTask b (deleteTask a s)) = Some B"
    using f by (simp add: deleteTask_def Let_def)
  have ts2: "tasks (deleteTask b (deleteTask a s))
               = filter (\<lambda>t. id' t \<noteq> JStr a \<and> id' t \<noteq> JStr b) (tasks s)"
    by (simp add: deleteTask_def Let_def conj_commute)
  show ?thesis
    using slot ts2 c A AB by (simp add: undoDelete_def)
qed

theorem delete_delete_undo_witness:
  "lastDeleted (deleteTask ''b'' (deleteTask ''a''
      (store [sampleTask ''a'' ''Todo'' JUndefined, sampleTask ''b'' ''Todo'' JUndefined,
              sampleTask ''c'' ''Done'' (JStr ''2023-11-02T10:00:00.000Z'')] None)))
     = Some (sampleTask ''b'' ''Todo'' JUndefined)
   \<and> tasks (undoDelete (Some (sampleTask ''b'' ''Todo'' JUndefined))
      (deleteTask ''b'' (deleteTask ''a''
        (store [sampleTask ''a'' ''Todo'' JUndefined, sampleTask ''b'' ''Todo'' JUndefined,
                sampleTask ''c'' ''Done'' (JStr ''2023-11-02T10:00:00.000Z'')] None))))
   = [sampleTask ''b'' ''Todo'' JUndefined,
      sampleTask ''c'' ''Done'' (JStr ''2023-11-02T10:00:00.000Z'')]
   \<and> lastDeleted (undoDelete (Some (sampleTask ''b'' ''Todo'' JUndefined))
      (deleteTask ''b'' (deleteTask ''a''
        (store [sampleTask ''a'' ''Todo'' JUndefined, sampleTask ''b'' ''Todo'' JUndefined,
                sampleTask ''c'' ''Done'' (JStr ''2023-11-02T10:00:00.000Z'')] None)))) = None"
  using delete_delete_undo [of "sampleTask ''a'' ''Todo'' JUndefined" "''a''" "''b''"
      "store [sampleTask ''a'' ''Todo'' JUndefined, sampleTask ''b'' ''Todo'' JUndefined,
              sampleTask ''c'' ''Done'' (JStr ''2023-11-02T10:00:00.000Z'')] None"
      "sampleTask ''b'' ''Todo'' JUndefined" "Some (sampleTask ''b'' ''Todo'' JUndefined)"]
  by (simp add: deleteTask_def store_def sampleTask_def)

subsection \<open>Completion stamps\<close>



lemma updateOne_keeps:
  assumes "p_completedAt patch = None" and "truthy (completedAt t)"
  shows "completedAt (updateOne now i patch t) = completedAt t"
  using assms by (simp add: updateOne_def merge_def over_def Let_def)

lemma updateTask_keeps_completedAt:
  assumes "p_completedAt patch = None" and "k < length (tasks s)"
      and "truthy (completedAt (tasks s ! k))"
  shows "completedAt (tasks (updateTask now i patch s) ! k) = completedAt (tasks s ! k)"
  using assms by (simp add: updateTask_def updateOne_keeps)




text \<open>What each mutation does to the tasks the store holds.\<close>

lemma updateOne_untouched:
  assumes "truthy (completedAt t)" and "p_completedAt patch = None \<or> id' t \<noteq> JStr i"
  shows "completedAt (updateOne now i patch t) = completedAt t"
  using assms by (auto simp: updateOne_def merge_def over_def Let_def)

lemma held_addTask: "held (addTask t r now task s) = newTask t r now task # held s"
  by (simp add: held_def addTask_def)

lemma held_deleteTask: "set (held (deleteTask i s)) \<subseteq> set (tasks s)"
  by (auto simp: held_def deleteTask_def Let_def split: option.splits dest: find_in_set [OF sym])

lemma held_undoDelete:
  "set (held (undoDelete captured s)) \<subseteq> set (held s) \<union> set (brought (UndoDelete captured))"
  by (auto simp: held_def undoDelete_def split: option.splits)

text \<open>
  Claim C5 says that no store mutation ever clears or alters a \<^verbatim>\<open>completedAt\<close> that
  is set. A patch wins over the task on every key it has, \<^verbatim>\<open>completedAt\<close> included:
  an update whose patch carries another \<^verbatim>\<open>completedAt\<close> replaces the stamp, and one
  whose patch carries \<^verbatim>\<open>completedAt: undefined\<close> clears it.
\<close>

theorem completedAt_kept_counterexample:
  "completedAt (tasks (mutate
       (UpdateTask 1700000000000 ''a''
          (emptyPatch \<lparr> p_completedAt := Some (JStr ''2020-01-01T00:00:00.000Z'') \<rparr>))
       (store [sampleTask ''a'' ''Done'' (JStr ''2023-11-02T10:00:00.000Z'')] None)) ! 0)
     = JStr ''2020-01-01T00:00:00.000Z''
   \<and> completedAt (tasks (mutate
       (UpdateTask 1700000000000 ''a'' (emptyPatch \<lparr> p_completedAt := Some JUndefined \<rparr>))
       (store [sampleTask ''a'' ''Done'' (JStr ''2023-11-02T10:00:00.000Z'')] None)) ! 0)
     = JUndefined"
  by (simp add: updateTask_def updateOne_def merge_def over_def store_def sampleTask_def
      emptyPatch_def)

text \<open>
  Claim C5, amended: for every task whose \<^verbatim>\<open>completedAt\<close> is set (a non-empty value)
  and every store mutation other than an update that matches the task's id with a
  patch that itself has the key \<^verbatim>\<open>completedAt\<close>, the mutation does not clear or alter
  that \<^verbatim>\<open>completedAt\<close>, whatever it does to the status. An update puts, position by
  position, \<open>carried m t\<close> in the place of each task \<open>t\<close> of the collection and leaves
  the undo slot alone, and \<open>carried m t\<close> has the \<^verbatim>\<open>completedAt\<close> of \<open>t\<close>. Any other
  mutation rewrites no task: what the store holds after it, in the collection or in
  the undo slot, was held before or is the task the mutation brings in.
\<close>

theorem completedAt_kept:
  "(truthy (completedAt t) \<and> \<not> replaces m t \<longrightarrow> completedAt (carried m t) = completedAt t)
   \<and> (if isUpdate m
      then tasks (mutate m s) = map (carried m) (tasks s)
           \<and> lastDeleted (mutate m s) = lastDeleted s
      else carried m t = t
           \<and> set (held (mutate m s)) \<subseteq> set (held s) \<union> set (brought m))"
proof (cases m)
  case (AddTask t0 r now task)
  then show ?thesis by (auto simp: held_addTask)
next
  case (UpdateTask now i patch)
  then show ?thesis by (auto simp: updateOne_untouched updateTask_def)
next
  case (DeleteTask i)
  then show ?thesis using held_deleteTask [of i s] by (auto simp: held_def)
next
  case (UndoDelete captured)
  then show ?thesis using held_undoDelete [of captured s] by auto
next
  case ClearHistory
  then show ?thesis by (auto simp: held_def clearHistory_def)
qed

theorem completedAt_kept_witness:
  "completedAt (tasks (mutate
      (UpdateTask 1700000000000 ''a'' (emptyPatch \<lparr> p_status := Some (JStr ''In Progress'') \<rparr>))
      (store [sampleTask ''a'' ''Done'' (JStr ''2023-11-02T10:00:00.000Z'')] None)) ! 0)
     = JStr ''2023-11-02T10:00:00.000Z''
   \<and> status (tasks (mutate
      (UpdateTask 1700000000000 ''a'' (emptyPatch \<lparr> p_status := Some (JStr ''In Progress'') \<rparr>))
      (store [sampleTask ''a'' ''Done'' (JStr ''2023-11-02T10:00:00.000Z'')] None)) ! 0)
     = JStr ''In Progress''
   \<and> completedAt (tasks (mutate
      (UpdateTask 1700000000000 ''b''
         (emptyPatch \<lparr> p_completedAt := Some (JStr ''2020-01-01T00:00:00.000Z'') \<rparr>))
      (store [sampleTask ''a'' ''Done'' (JStr ''2023-11-02T10:00:00.000Z''),
              sampleTask ''b'' ''Todo'' JUndefined] None)) ! 0)
     = JStr ''2023-11-02T10:00:00.000Z''"
proof -
  let ?a = "sampleTask ''a'' ''Done'' (JStr ''2023-11-02T10:00:00.000Z'')"
  let ?m1 = "UpdateTask 1700000000000 ''a''
      (emptyPatch \<lparr> p_status := Some (JStr ''In Progress'') \<rparr>)"
  let ?m2 = "UpdateTask 1700000000000 ''b''
      (emptyPatch \<lparr> p_completedAt := Some (JStr ''2020-01-01T00:00:00.000Z'') \<rparr>)"
  have 1: "completedAt (carried ?m1 ?a) = completedAt ?a"
    and t1: "tasks (mutate ?m1 (store [?a] None)) = map (carried ?m1) [?a]"
    using completedAt_kept [of ?a ?m1 "store [?a] None"]
    by (simp_all add: store_def sampleTask_def emptyPatch_def)
  have 2: "completedAt (carried ?m2 ?a) = completedAt ?a"
    and t2: "tasks (mutate ?m2 (store [?a, sampleTask ''b'' ''Todo'' JUndefined] None))
               = map (carried ?m2) [?a, sampleTask ''b'' ''Todo'' JUndefined]"
    using completedAt_kept [of ?a ?m2 "store [?a, sampleTask ''b'' ''Todo'' JUndefined] None"]
    by (simp_all add: store_def sampleTask_def emptyPatch_def)
  have s1: "status (carried ?m1 ?a) = JStr ''In Progress''"
    by (simp add: updateOne_def merge_def over_def sampleTask_def emptyPatch_def)
  have ca: "completedAt ?a = JStr ''2023-11-02T10:00:00.000Z''"
    by (simp add: sampleTask_def)
  show ?thesis
    unfolding t1 t2 using 1 2 s1 ca by simp
qed

section \<open>Properties of load-time normalization\<close>

subsection \<open>Inputs that are not arrays, and arrays that make it throw\<close>

lemmas normalize_defs =
  normalizeTasks_def isArray_def elements_def normalizeTask_def andThen_def field_def
  Number_def newDate_def toPrimitive_def nullish_def toISOString_def getTime_def

lemma andThen_Inr: "andThen m f = Inr y \<longleftrightarrow> (\<exists>x. m = Inr x \<and> f x = Inr y)"
  by (cases m) (simp_all add: andThen_def)



text \<open>An array is mapped element by element; an element that is null throws.\<close>

lemma normalizeTasks_null_element: "normalizeTasks rt now (JArr [JNull]) = Inl TypeError"
  by (simp add: normalizeTasks_def isArray_def elements_def normalizeTask_def andThen_def)






subsection \<open>Defaults\<close>

text \<open>
  \<^verbatim>\<open>Number(t.revenue) ?? 0\<close>: \<^verbatim>\<open>Number\<close> returns a number, never null or undefined, so
  the default 0 is never taken and the field holds whatever \<^verbatim>\<open>Number\<close> returned, NaN
  included.
\<close>

lemma revenue_is_Number:
  assumes "normalizeTask rt now idx t = Inr task"
  shows "\<exists>n. Number rt (field t ''revenue'') = Inr n \<and> revenue task = JNum n"
  using assms by (auto simp: normalizeTask_def andThen_Inr nullish_def split: if_splits)

lemma Number_undefined: "Number rt JUndefined = Inr NaN"
  by (simp add: Number_def toPrimitive_def andThen_def)

text \<open>
  Claim C2 says that a record with a title and nothing else is normalized to a task
  with \<^verbatim>\<open>revenue\<close> 0, \<^verbatim>\<open>timeTaken\<close> 0, a synthesized \<^verbatim>\<open>createdAt\<close> and no
  \<^verbatim>\<open>completedAt\<close>. The code gives the last three, and NaN for \<^verbatim>\<open>revenue\<close>: at the
  clock value 1700000000000 the input \<^verbatim>\<open>[{title: "X"}]\<close> is normalized as follows,
  whatever the conversion parameters.
\<close>

theorem normalizeTasks_title_only:
  "normalizeTasks rt 1700000000000 (JArr [JObj [(''title'', JStr ''X'')]])
   = Inr [\<lparr> id' = JUndefined, title = JStr ''X'', revenue = JNum NaN,
            timeTaken = JNum (Fin 0), priority = JUndefined, status = JUndefined,
            notes' = JUndefined, createdAt = JStr ''2023-11-13T22:13:20.000Z'',
            completedAt = JUndefined \<rparr>]"
  by (simp add: normalize_defs iso_examples)

subsection \<open>Synthesized creation times\<close>

lemma mapIdx_Inr:
  "mapIdx f k xs = Inr ys \<Longrightarrow>
     length ys = length xs \<and> (\<forall>j < length xs. f (k + j) (xs ! j) = Inr (ys ! j))"
proof (induction xs arbitrary: k ys)
  case Nil
  then show ?case by simp
next
  case (Cons x xs)
  from Cons.prems obtain y ys' where y: "f k x = Inr y"
    and ys': "mapIdx f (Suc k) xs = Inr ys'" and ys: "ys = y # ys'"
    by (auto simp: andThen_Inr)
  from Cons.IH [OF ys'] have len: "length ys' = length xs"
    and nth: "\<And>j. j < length xs \<Longrightarrow> f (Suc k + j) (xs ! j) = Inr (ys' ! j)"
    by simp_all
  show ?case
  proof (intro conjI allI impI)
    show "length ys = length (x # xs)" using len ys by simp
  next
    fix j assume "j < length (x # xs)"
    then show "f (k + j) ((x # xs) ! j) = Inr (ys ! j)"
      using y nth ys by (cases j) simp_all
  qed
qed

lemma TimeClip_int_Some: "TimeClip (Fin (of_int x)) = Some t \<Longrightarrow> t = x"
  by (simp split: if_splits)

lemma toISOString_Inr: "toISOString d = Inr str \<longleftrightarrow> (\<exists>t. d = Some t \<and> str = iso t)"
  by (cases d) (auto simp: toISOString_def)

text \<open>
  A record whose \<^verbatim>\<open>createdAt\<close> is missing or falsy gets the clock value minus
  \<open>idx + 1\<close> days.
\<close>

lemma normalizeTask_synthesized:
  assumes "normalizeTask rt now idx t = Inr task"
      and "\<not> truthy (field t ''createdAt'')"
  shows "createdAt task = JStr (iso (now - (int idx + 1) * msPerDay))"
proof -
  from assms obtain created createdIso where
    c: "TimeClip (Fin (of_int (now - (int idx + 1) * 24 * 3600 * 1000))) = created"
    and i: "toISOString created = Inr createdIso"
    and t: "createdAt task = JStr createdIso"
    by (auto simp: normalizeTask_def andThen_Inr split: if_splits)
  from i obtain tv where tv: "created = Some tv" "createdIso = iso tv"
    by (auto simp: toISOString_Inr)
  from c tv(1) have "tv = now - (int idx + 1) * 24 * 3600 * 1000"
    by (metis TimeClip_int_Some)
  also have "\<dots> = now - (int idx + 1) * msPerDay"
    by (simp add: msPerDay_def)
  finally show ?thesis using t tv(2) by simp
qed

text \<open>
  Claim C3 says that the synthesized \<^verbatim>\<open>createdAt\<close> decreases with the index, so that
  records earlier in the array appear to have been created earlier. The first half
  holds and rules out the second: of two records with a title only, normalized at the
  clock value 1700000000000, the one at index 0 gets 13 November and the one at index 1
  gets 12 November, so the earlier record appears to have been created later.
\<close>

theorem synthesized_createdAt_counterexample:
  "map_sum id (map createdAt)
     (normalizeTasks no_conversions 1700000000000
        (JArr [JObj [(''title'', JStr ''X'')], JObj [(''title'', JStr ''Y'')]]))
     = Inr [JStr (iso 1699913600000), JStr (iso 1699827200000)]
   \<and> iso 1699913600000 = ''2023-11-13T22:13:20.000Z''
   \<and> iso 1699827200000 = ''2023-11-12T22:13:20.000Z''
   \<and> \<not> (1699913600000 < (1699827200000 :: int))"
  by (simp add: normalize_defs iso_examples)

text \<open>
  Claim C3, amended: when normalization of an array succeeds, each record at index
  \<open>i\<close> whose \<^verbatim>\<open>createdAt\<close> is missing (or falsy) gets the ISO text of the
  normalization time minus \<open>i + 1\<close> days. These times strictly decrease with the
  index: of two such records, the one earlier in the array appears to have been
  created later, more recently, than the one after it.
\<close>

theorem synthesized_createdAt_decreases:
  assumes "normalizeTasks rt now (JArr rs) = Inr ts"
      and "i < length rs"
      and "\<not> truthy (field (rs ! i) ''createdAt'')"
  shows "createdAt (ts ! i) = JStr (iso (now - (int i + 1) * msPerDay))
       \<and> (\<forall>j. i < j \<and> j < length rs \<and> \<not> truthy (field (rs ! j) ''createdAt'')
            \<longrightarrow> createdAt (ts ! j) = JStr (iso (now - (int j + 1) * msPerDay))
                \<and> now - (int j + 1) * msPerDay < now - (int i + 1) * msPerDay)"
proof -
  from assms(1) have m: "mapIdx (normalizeTask rt now) 0 rs = Inr ts"
    by (simp add: normalizeTasks_def isArray_def elements_def)
  have each: "createdAt (ts ! k) = JStr (iso (now - (int k + 1) * msPerDay))"
    if "k < length rs" and "\<not> truthy (field (rs ! k) ''createdAt'')" for k
  proof -
    from mapIdx_Inr [OF m] that(1)
    have "normalizeTask rt now k (rs ! k) = Inr (ts ! k)"
      by simp
    then show ?thesis
      using that(2) by (rule normalizeTask_synthesized)
  qed
  have "now - (int j + 1) * msPerDay < now - (int i + 1) * msPerDay" if "i < j" for j
    using that by (simp add: msPerDay_def)
  with each assms(2,3) show ?thesis
    by auto
qed

theorem synthesized_createdAt_decreases_witness:
  "normalizeTasks no_conversions 1700000000000 (JArr sampleRecords) = Inr sampleNormalized
   \<and> createdAt (sampleNormalized ! 0) = JStr (iso 1699913600000)
   \<and> createdAt (sampleNormalized ! 2) = JStr (iso 1699740800000)
   \<and> (1699740800000 :: int) < 1699913600000
   \<and> normalizeTasks no_conversions 1700000000000 (JArr [JObj [(''title'', JStr ''X'')]])
       = Inr [sampleNormalized ! 0]"
proof -
  have n: "normalizeTasks no_conversions 1700000000000 (JArr sampleRecords)
             = Inr sampleNormalized"
    by (simp add: sampleRecords_def sampleNormalized_def normalize_defs iso_examples)
  have n1: "normalizeTasks no_conversions 1700000000000 (JArr [JObj [(''title'', JStr ''X'')]])
             = Inr [sampleNormalized ! 0]"
    by (simp add: sampleNormalized_def normalize_defs iso_examples)
  have len: "0 < length sampleRecords" "2 < length sampleRecords"
    by (simp_all add: sampleRecords_def)
  have f0: "\<not> truthy (field (sampleRecords ! 0) ''createdAt'')"
    and f2: "\<not> truthy (field (sampleRecords ! 2) ''createdAt'')"
    by (simp_all add: sampleRecords_def field_def)
  from synthesized_createdAt_decreases [OF n len(1) f0] len(2) f2
  have "createdAt (sampleNormalized ! 0) = JStr (iso (1700000000000 - (int 0 + 1) * msPerDay))"
    and "createdAt (sampleNormalized ! 2) = JStr (iso (1700000000000 - (int 2 + 1) * msPerDay))"
    by simp_all
  with n n1 show ?thesis
    by (simp add: msPerDay_def)
qed

end
